theory Spec2Isabelle
  imports Complex_Main
begin

section \<open>kinisi: the Xdatcar parser (\<open>src/kinisi/parser.py\<close>)\<close>

text \<open>
  A shallow embedding of \<open>PymatgenParser\<close> and \<open>_get_structure_and_disp\<close>.
  Python integers are \<open>int\<close>; array entries are real numbers in exact arithmetic
  together with the one non-number \<open>NaN\<close> that numpy produces for the mean of an
  empty slice. Every \<open>raise\<close> of the source, and every exception of the Python and
  numpy operations it calls, is a value \<open>Inl e\<close> of the result.
\<close>

subsection \<open>Exceptions\<close>

datatype error =
    ValueError string
  | ZeroDivisionError
  | IndexError

subsection \<open>Python and numpy primitives\<close>

text \<open>\<open>int(x)\<close> on a float: truncation toward zero.\<close>

definition py_int :: "real \<Rightarrow> int" where
  "py_int x = (if 0 \<le> x then \<lfloor>x\<rfloor> else \<lceil>x\<rceil>)"

text \<open>
  \<open>np.arange(start, stop, step)\<close> on integers: \<open>ceil((stop - start) / step)\<close> values
  \<open>start + i * step\<close> (none when that count is not positive). The source calls it with
  a step of at least 1 only.
\<close>

definition arange :: "int \<Rightarrow> int \<Rightarrow> int \<Rightarrow> int list" where
  "arange start stop step =
     map (\<lambda>i. start + int i * step) [0..<nat (- ((start - stop) div step))]"

subsection \<open>The parser object\<close>

text \<open>
  The attributes of \<open>PymatgenParser\<close> that exist before the displacements are stored.
  \<open>time_step\<close> and \<open>step_skip\<close> are integers, as the docstring of \<open>__init__\<close> has them;
  \<open>indices\<close> is the list of the mobile sites.
\<close>

record parser =
  time_step :: int
  step_skip :: int
  indices :: "nat list"

subsection \<open>\<open>PymatgenParser.smoothed_timesteps\<close>\<close>

text \<open>
  Lines 109 to 118. \<open>/\<close> is true division, taken exactly, and \<open>//\<close> is floor division;
  either raises \<open>ZeroDivisionError\<close> on a zero divisor, in the order the source evaluates
  them.
\<close>

definition smoothed_timesteps :: "parser \<Rightarrow> int \<Rightarrow> int \<Rightarrow> error + int list" where
  "smoothed_timesteps p nsteps min_obs =
     (if step_skip p * time_step p = 0 then Inl ZeroDivisionError
      else
        let min_dt = py_int (1000 / real_of_int (step_skip p * time_step p)) in
        if min_obs = 0 then Inl ZeroDivisionError
        else
          let max_dt = min (int (length (indices p)) * nsteps div min_obs) nsteps in
          if min_dt \<ge> max_dt
          then Inl (ValueError ''Not enough data to calculate diffusivity'')
          else Inr (arange min_dt max_dt
                      (max (py_int (real_of_int (max_dt - min_dt) / 200)) 1)))"

subsection \<open>Array entries\<close>

text \<open>
  A float is modelled as an exact real number, or \<open>NaN\<close>. \<open>NaN\<close> absorbs every
  arithmetic operation, as in IEEE 754.
\<close>

datatype num = Val real | NaN

fun nadd :: "num \<Rightarrow> num \<Rightarrow> num" where
  "nadd (Val x) (Val y) = Val (x + y)"
| "nadd _ _ = NaN"

fun nsub :: "num \<Rightarrow> num \<Rightarrow> num" where
  "nsub (Val x) (Val y) = Val (x - y)"
| "nsub _ _ = NaN"

fun nmul :: "num \<Rightarrow> num \<Rightarrow> num" where
  "nmul (Val x) (Val y) = Val (x * y)"
| "nmul _ _ = NaN"

text \<open>\<open>np.sum\<close> over a list of entries (the empty sum is \<open>0.0\<close>).\<close>

primrec nsum :: "num list \<Rightarrow> num" where
  "nsum [] = Val 0"
| "nsum (x # xs) = nadd x (nsum xs)"

text \<open>
  \<open>np.average\<close> (no weights) over a list of entries: numpy divides the sum by the count,
  and the mean of an empty slice is \<open>0.0 / 0 = nan\<close>, with a warning and no exception.
\<close>

definition np_average :: "num list \<Rightarrow> num" where
  "np_average xs =
     (if xs = [] then NaN
      else case nsum xs of Val s \<Rightarrow> Val (s / real (length xs)) | NaN \<Rightarrow> NaN)"

text \<open>\<open>np.round\<close>: to the nearest integer, a tie going to the even neighbour.\<close>

definition round_half_even :: "real \<Rightarrow> int" where
  "round_half_even x =
     (let f = \<lfloor>x\<rfloor>; r = x - of_int f
      in if r < 1 / 2 then f
         else if 1 / 2 < r then f + 1
         else if even f then f else f + 1)"

fun nround :: "num \<Rightarrow> num" where
  "nround (Val x) = Val (of_int (round_half_even x))"
| "nround NaN = NaN"

subsection \<open>numpy arrays\<close>

text \<open>
  An array is its shape and its entries by index; entries outside the shape are never read.
\<close>

record ndarray3 =
  shape0 :: nat
  shape1 :: nat
  shape2 :: nat
  item3 :: "nat \<Rightarrow> nat \<Rightarrow> nat \<Rightarrow> num"

record ndarray2 =
  rows :: nat
  cols :: nat
  item2 :: "nat \<Rightarrow> nat \<Rightarrow> num"


subsection \<open>pymatgen structures\<close>

text \<open>
  The part of \<open>pymatgen.core.structure.Structure\<close> that the parser reads: the sites in
  order, each with \<open>specie.symbol\<close> and its three fractional coordinates, and the
  3 by 3 \<open>lattice.matrix\<close> (rows are the lattice vectors).
\<close>

datatype vec3 = Vec3 num num num

fun vnth :: "vec3 \<Rightarrow> nat \<Rightarrow> num" where
  "vnth (Vec3 x y z) a = (if a = 0 then x else if a = 1 then y else z)"

datatype mat3 = Mat3 vec3 vec3 vec3


record site =
  symbol :: string
  frac_coords :: vec3

record pmg_structure =
  sites :: "site list"
  lattice_matrix :: mat3

subsection \<open>\<open>_get_structure_and_disp\<close>\<close>

text \<open>
  \<open>coords\<close> after \<open>coords.insert(0, coords[0])\<close> and \<open>np.concatenate(coords, axis=1)\<close>
  (lines 172 to 177): entry \<open>[site i, k, axis a]\<close>, where \<open>k = 0\<close> is the copy of the first
  frame and \<open>k = j + 1\<close> is frame \<open>j\<close>.
\<close>

definition coords_of :: "pmg_structure list \<Rightarrow> nat \<Rightarrow> nat \<Rightarrow> nat \<Rightarrow> num" where
  "coords_of structures i k a =
     vnth (frac_coords (sites ((hd structures # structures) ! k) ! i)) a"

text \<open>
  Lines 178 and 179: \<open>d_coords = coords[:, 1:] - coords[:, :-1]\<close>, then
  \<open>d_coords = d_coords - np.round(d_coords)\<close>.
\<close>

definition d_coords_of :: "pmg_structure list \<Rightarrow> nat \<Rightarrow> nat \<Rightarrow> nat \<Rightarrow> num" where
  "d_coords_of structures i k a =
     (let d = nsub (coords_of structures i (Suc k) a) (coords_of structures i k a)
      in nsub d (nround d))"






subsection \<open>\<open>PymatgenParser.correct_for_drift\<close>\<close>

text \<open>
  Lines 81 to 86: the loop over \<open>enumerate(structure)\<close> appends the index of every site
  of the species to \<open>self.indices\<close> and the others to \<open>framework_indices\<close>.
\<close>

definition mobile_indices :: "pmg_structure \<Rightarrow> string \<Rightarrow> nat list" where
  "mobile_indices structure specie =
     map fst (filter (\<lambda>(i, s). symbol s = specie) (enumerate 0 (sites structure)))"



subsection \<open>\<open>PymatgenParser.get_disps\<close>\<close>

text \<open>
  Python slices on an axis of length \<open>n\<close>: \<open>a[t:]\<close> as its first index and its length,
  \<open>a[:e]\<close> as its length. A negative bound counts from the end, and bounds are clipped.
\<close>

definition slice_from :: "nat \<Rightarrow> int \<Rightarrow> nat \<times> nat" where
  "slice_from n t =
     (let s = nat (if t < 0 then max (int n + t) 0 else min t (int n)) in (s, n - s))"

definition slice_upto :: "nat \<Rightarrow> int \<Rightarrow> nat" where
  "slice_upto n e = nat (if e < 0 then max (int n + e) 0 else min e (int n))"

text \<open>numpy broadcasting of two lengths on one axis.\<close>

definition broadcast_len :: "nat \<Rightarrow> nat \<Rightarrow> error + nat" where
  "broadcast_len l1 l2 =
     (if l1 = l2 then Inr l1
      else if l1 = 1 then Inr l2
      else if l2 = 1 then Inr l1
      else Inl (ValueError ''operands could not be broadcast together''))"

text \<open>
  Lines 141 to 144: \<open>np.subtract(drift_corrected[:, timestep:, :],
  drift_corrected[:, :-timestep, :])\<close>.
\<close>

definition displacement :: "ndarray3 \<Rightarrow> int \<Rightarrow> error + ndarray3" where
  "displacement dc timestep =
     (let n = shape1 dc;
          (s1, l1) = slice_from n timestep;
          l2 = slice_upto n (- timestep)
      in case broadcast_len l1 l2 of
           Inl e \<Rightarrow> Inl e
         | Inr l \<Rightarrow>
             Inr \<lparr>shape0 = shape0 dc, shape1 = l, shape2 = shape2 dc,
                  item3 = (\<lambda>i f a.
                    nsub (item3 dc i (s1 + (if l1 = 1 then 0 else f)) a)
                         (item3 dc i (if l2 = 1 then 0 else f) a))\<rparr>)"

text \<open>\<open>x ** 2\<close>, \<open>np.sum(x, axis=2)\<close> and the row selection \<open>x[self.indices]\<close>.\<close>

definition square :: "ndarray3 \<Rightarrow> ndarray3" where
  "square x = x\<lparr>item3 := (\<lambda>i f a. nmul (item3 x i f a) (item3 x i f a))\<rparr>"

definition sum_axis2 :: "ndarray3 \<Rightarrow> ndarray2" where
  "sum_axis2 x =
     \<lparr>rows = shape0 x, cols = shape1 x,
      item2 = (\<lambda>i f. nsum (map (\<lambda>a. item3 x i f a) [0..<shape2 x]))\<rparr>"

definition take_rows :: "ndarray2 \<Rightarrow> nat list \<Rightarrow> error + ndarray2" where
  "take_rows x idx =
     (if \<exists>j \<in> set idx. rows x \<le> j then Inl IndexError
      else Inr \<lparr>rows = length idx, cols = cols x, item2 = (\<lambda>j f. item2 x (idx ! j) f)\<rparr>)"

text \<open>
  One pass of the loop of lines 140 to 149 for one \<open>timestep\<close>: the value stored in
  \<open>msd[i]\<close> and the arrays appended to \<open>sq_disp_store\<close> and \<open>disp_store\<close>.
  \<open>sq_disp_ions[:, i]\<close> is the mean over the second axis (the time origins) for every
  site; \<open>msd[i]\<close> is the mean of its entries at \<open>self.indices\<close>.
\<close>

definition disps_at :: "parser \<Rightarrow> ndarray3 \<Rightarrow> int \<Rightarrow> error + (num \<times> ndarray2 \<times> ndarray2)" where
  "disps_at p dc timestep =
     (case displacement dc timestep of
        Inl e \<Rightarrow> Inl e
      | Inr disp \<Rightarrow>
          let sq_disp = square disp in
          case take_rows (sum_axis2 disp) (indices p) of
            Inl e \<Rightarrow> Inl e
          | Inr d_sel \<Rightarrow>
              case take_rows (sum_axis2 sq_disp) (indices p) of
                Inl e \<Rightarrow> Inl e
              | Inr sq_sel \<Rightarrow>
                  let sq_disp_ions = (\<lambda>i. np_average
                        (map (\<lambda>f. item2 (sum_axis2 sq_disp) i f) [0..<shape1 sq_disp]))
                  in Inr (np_average (map sq_disp_ions (indices p)), sq_sel, d_sel))"

fun get_disps_loop ::
  "parser \<Rightarrow> ndarray3 \<Rightarrow> int list \<Rightarrow> error + (num list \<times> ndarray2 list \<times> ndarray2 list)" where
  "get_disps_loop p dc [] = Inr ([], [], [])"
| "get_disps_loop p dc (t # ts) =
     (case disps_at p dc t of
        Inl e \<Rightarrow> Inl e
      | Inr (m, sq, d) \<Rightarrow>
          (case get_disps_loop p dc ts of
             Inl e \<Rightarrow> Inl e
           | Inr (ms, sqs, ds) \<Rightarrow> Inr (m # ms, sq # sqs, d # ds)))"

text \<open>
  Lines 132 to 151: the result is \<open>(delta_t, msd, sq_disp_store, disp_store)\<close>.
\<close>

definition get_disps ::
  "parser \<Rightarrow> int list \<Rightarrow> ndarray3 \<Rightarrow>
     error + (int list \<times> num list \<times> ndarray2 list \<times> ndarray2 list)" where
  "get_disps p timesteps drift_corrected =
     (let delta_t = map (\<lambda>t. t * time_step p * step_skip p) timesteps
      in case get_disps_loop p drift_corrected timesteps of
           Inl e \<Rightarrow> Inl e
         | Inr (msd, sq_disp_store, disp_store) \<Rightarrow>
             Inr (delta_t, msd, sq_disp_store, disp_store))"

subsection \<open>\<open>PymatgenParser.__init__\<close>\<close>

text \<open>The constructed object: the parser with the four attributes of line 62.\<close>

record pymatgen_parser = parser +
  delta_t :: "int list"
  msd :: "num list"
  sq_disp_store :: "ndarray2 list"
  disp_store :: "ndarray2 list"


section \<open>Properties of the interval sampler\<close>

subsection \<open>Truncation and \<open>np.arange\<close>\<close>

lemma py_int_nonneg_div: "0 \<le> a \<Longrightarrow> 0 < b \<Longrightarrow> py_int (real_of_int a / real_of_int b) = a div b"
  unfolding py_int_def by (simp add: floor_divide_of_int_eq)

lemma py_int_200: "0 \<le> a \<Longrightarrow> py_int (real_of_int a / 200) = a div 200"
  using py_int_nonneg_div[of a 200] by simp

lemma py_int_1000: "0 < k \<Longrightarrow> py_int (1000 / real_of_int k) = 1000 div k"
  using py_int_nonneg_div[of 1000 k] by simp

lemma length_arange: "length (arange a b s) = nat (- ((a - b) div s))"
  by (simp add: arange_def)

lemma nth_arange: "i < length (arange a b s) \<Longrightarrow> arange a b s ! i = a + int i * s"
  by (simp add: arange_def)

lemma ceil_bounds:
  fixes s :: int
  assumes "0 < s"
  shows "(- ((a - b) div s) - 1) * s < b - a" and "b - a \<le> - ((a - b) div s) * s"
proof -
  define q where "q = (a - b) div s"
  define r where "r = (a - b) mod s"
  have e: "a - b = s * q + r" unfolding q_def r_def by simp
  have m: "0 \<le> r" "r < s" using assms unfolding r_def by simp_all
  have "(- q - 1) * s < b - a" using e m by (simp add: algebra_simps)
  then show "(- ((a - b) div s) - 1) * s < b - a" unfolding q_def .
  have "b - a \<le> - q * s" using e m by (simp add: algebra_simps)
  then show "b - a \<le> - ((a - b) div s) * s" unfolding q_def .
qed

lemma arange_bounds:
  assumes "0 < s" "x \<in> set (arange a b s)"
  shows "a \<le> x \<and> x < b"
proof -
  from assms(2) obtain i where i: "i < nat (- ((a - b) div s))" and x: "x = a + int i * s"
    by (auto simp: arange_def)
  have "int i \<le> - ((a - b) div s) - 1" using i by linarith
  then have "int i * s \<le> (- ((a - b) div s) - 1) * s"
    using assms(1) by (simp add: mult_right_mono)
  with ceil_bounds(1)[OF assms(1), of a b] have "int i * s < b - a" by linarith
  moreover have "0 \<le> int i * s" using assms(1) by simp
  ultimately show ?thesis using x by simp
qed

lemma arange_strict: "0 < s \<Longrightarrow> sorted_wrt (<) (arange a b s)"
  by (simp add: sorted_wrt_iff_nth_less length_arange nth_arange)



subsection \<open>When the sampler raises\<close>

lemma arange_first: "0 < s \<Longrightarrow> a < b \<Longrightarrow> a \<in> set (arange a b s)"
proof -
  assume s: "0 < s" and ab: "a < b"
  have "(a - b) div s < 0" using s ab by (simp add: pos_imp_zdiv_neg_iff)
  then have "0 < nat (- ((a - b) div s))" by simp
  then have "0 < length (arange a b s)" by (simp add: length_arange)
  then have "arange a b s ! 0 \<in> set (arange a b s)" by (rule nth_mem)
  moreover have "arange a b s ! 0 = a" using \<open>0 < length (arange a b s)\<close> by (simp add: nth_arange)
  ultimately show ?thesis by simp
qed

lemma smoothed_timesteps_Inr:
  assumes "smoothed_timesteps p nsteps min_obs = Inr ts"
  shows "step_skip p * time_step p \<noteq> 0" and "min_obs \<noteq> 0"
    and "py_int (1000 / real_of_int (step_skip p * time_step p))
           < min (int (length (indices p)) * nsteps div min_obs) nsteps"
    and "ts = arange (py_int (1000 / real_of_int (step_skip p * time_step p)))
                (min (int (length (indices p)) * nsteps div min_obs) nsteps)
                (max ((min (int (length (indices p)) * nsteps div min_obs) nsteps
                       - py_int (1000 / real_of_int (step_skip p * time_step p))) div 200) 1)"
proof -
  show a: "step_skip p * time_step p \<noteq> 0" and b: "min_obs \<noteq> 0"
    using assms by (auto simp: smoothed_timesteps_def Let_def split: if_splits)
  show c: "py_int (1000 / real_of_int (step_skip p * time_step p))
           < min (int (length (indices p)) * nsteps div min_obs) nsteps"
    using assms a b by (auto simp: smoothed_timesteps_def Let_def split: if_splits)
  then have "0 \<le> min (int (length (indices p)) * nsteps div min_obs) nsteps
                - py_int (1000 / real_of_int (step_skip p * time_step p))" by simp
  from py_int_200[OF this] assms a b c
  show "ts = arange (py_int (1000 / real_of_int (step_skip p * time_step p)))
                (min (int (length (indices p)) * nsteps div min_obs) nsteps)
                (max ((min (int (length (indices p)) * nsteps div min_obs) nsteps
                       - py_int (1000 / real_of_int (step_skip p * time_step p))) div 200) 1)"
    by (simp add: smoothed_timesteps_def Let_def split: if_splits)
qed





subsection \<open>The sampled intervals\<close>

text \<open>
  What holds of every returned sequence: it is strictly increasing and every interval is
  an integer with \<open>min_dt \<le> \<Delta> < nsteps\<close>; every interval is positive when
  \<open>0 < step_skip * time_step \<le> 1000\<close>.
\<close>

theorem smoothed_timesteps_increasing:
  assumes "smoothed_timesteps p nsteps min_obs = Inr ts"
  shows "sorted_wrt (<) ts
       \<and> (\<forall>\<Delta> \<in> set ts. \<Delta> < nsteps
             \<and> py_int (1000 / real_of_int (step_skip p * time_step p)) \<le> \<Delta>
             \<and> (0 < step_skip p * time_step p \<and> step_skip p * time_step p \<le> 1000
                  \<longrightarrow> 0 < \<Delta>))"
proof -
  define m where "m = py_int (1000 / real_of_int (step_skip p * time_step p))"
  define M where "M = min (int (length (indices p)) * nsteps div min_obs) nsteps"
  define s where "s = max ((M - m) div 200) 1"
  have ts: "ts = arange m M s" and mM: "m < M"
    using smoothed_timesteps_Inr(3,4)[OF assms] unfolding m_def M_def s_def by simp_all
  have s: "0 < s" unfolding s_def by simp
  have M: "M \<le> nsteps" unfolding M_def by simp
  have pos: "0 < m" if "0 < step_skip p * time_step p" "step_skip p * time_step p \<le> 1000"
  proof -
    have "m = 1000 div (step_skip p * time_step p)"
      unfolding m_def using that(1) by (rule py_int_1000)
    moreover have "0 < 1000 div (step_skip p * time_step p)"
      using that pos_imp_zdiv_pos_iff[of "step_skip p * time_step p" 1000] by blast
    ultimately show ?thesis by simp
  qed
  have "sorted_wrt (<) ts" unfolding ts using s by (rule arange_strict)
  moreover have "\<Delta> < nsteps \<and> m \<le> \<Delta>
             \<and> (0 < step_skip p * time_step p \<and> step_skip p * time_step p \<le> 1000 \<longrightarrow> 0 < \<Delta>)"
    if "\<Delta> \<in> set ts" for \<Delta>
  proof -
    have "m \<le> \<Delta> \<and> \<Delta> < M" using arange_bounds[OF s] that unfolding ts by blast
    with M pos show ?thesis by force
  qed
  ultimately show ?thesis unfolding m_def by blast
qed

theorem smoothed_timesteps_increasing_witness:
  "smoothed_timesteps \<lparr>time_step = 1, step_skip = 1, indices = [0]\<rparr> 2000 1
     = Inr (arange 1000 2000 5)
   \<and> 1000 \<in> set (arange 1000 2000 5)
   \<and> sorted_wrt (<) (arange 1000 2000 5)
   \<and> (0::int) < 1000 \<and> (1000::int) < 2000"
proof -
  have r: "smoothed_timesteps \<lparr>time_step = 1, step_skip = 1, indices = [0]\<rparr> 2000 1
     = Inr (arange 1000 2000 5)"
    by (simp add: smoothed_timesteps_def py_int_def)
  have mem: "1000 \<in> set (arange 1000 2000 5)" by (rule arange_first) simp_all
  from smoothed_timesteps_increasing[OF r] mem r show ?thesis by simp
qed

lemma displacement_zero_raises:
  assumes "2 \<le> shape1 dc"
  shows "displacement dc 0 = Inl (ValueError ''operands could not be broadcast together'')"
proof -
  have "slice_from (shape1 dc) 0 = (0, shape1 dc)" by (simp add: slice_from_def Let_def)
  moreover have "slice_upto (shape1 dc) (- 0) = 0" by (simp add: slice_upto_def)
  moreover have "broadcast_len (shape1 dc) 0
                   = Inl (ValueError ''operands could not be broadcast together'')"
    using assms by (simp add: broadcast_len_def)
  ultimately show ?thesis unfolding displacement_def Let_def by simp
qed

lemma get_disps_zero_raises:
  assumes "2 \<le> shape1 dc"
  shows "get_disps p (0 # ts) dc = Inl (ValueError ''operands could not be broadcast together'')"
  unfolding get_disps_def Let_def
  by (simp add: disps_at_def displacement_zero_raises[OF assms])

text \<open>
  C3. Every returned interval should be a positive integer, at most \<open>nsteps\<close>, in a
  strictly increasing sequence. With \<open>time_step = 2\<close> and \<open>step_skip = 1000\<close> the lower
  bound is \<open>int(1000 / 2000) = 0\<close> and the interval \<open>0\<close> is returned. \<open>get_disps\<close>
  cannot process it: on ten frames the slices \<open>[:, 0:, :]\<close> and \<open>[:, :-0, :]\<close> have the
  lengths 10 and 0, and \<open>np.subtract\<close> raises.
\<close>

theorem smoothed_timesteps_zero_interval:
  "smoothed_timesteps \<lparr>time_step = 2, step_skip = 1000, indices = [0]\<rparr> 10 1
     = Inr (arange 0 10 1)
   \<and> 0 \<in> set (arange 0 10 1)
   \<and> get_disps \<lparr>time_step = 2, step_skip = 1000, indices = [0]\<rparr> (arange 0 10 1)
         \<lparr>shape0 = 1, shape1 = 10, shape2 = 3, item3 = (\<lambda>i t a. Val 0)\<rparr>
       = Inl (ValueError ''operands could not be broadcast together'')"
proof -
  have r: "smoothed_timesteps \<lparr>time_step = 2, step_skip = 1000, indices = [0]\<rparr> 10 1
     = Inr (arange 0 10 1)"
    by (simp add: smoothed_timesteps_def py_int_def)
  have m: "0 \<in> set (arange 0 10 1)" by (rule arange_first) simp_all
  have a: "arange 0 10 1 = 0 # map int [1..<10]"
    by (simp add: arange_def upt_conv_Cons)
  have "2 \<le> shape1 \<lparr>shape0 = 1, shape1 = 10, shape2 = 3, item3 = (\<lambda>i t a. Val 0)\<rparr>"
    by simp
  then have g: "get_disps \<lparr>time_step = 2, step_skip = 1000, indices = [0]\<rparr> (arange 0 10 1)
         \<lparr>shape0 = 1, shape1 = 10, shape2 = 3, item3 = (\<lambda>i t a. Val 0)\<rparr>
       = Inl (ValueError ''operands could not be broadcast together'')"
    unfolding a by (rule get_disps_zero_raises)
  from r m g show ?thesis by (intro conjI)
qed

text \<open>
  C4 (amended). For \<open>step_skip * time_step > 0\<close>, every returned interval satisfies
  \<open>(\<Delta> + 1) * time_step * step_skip > 1000\<close>, and \<open>\<Delta> * time_step * step_skip \<ge> 1000\<close>
  when \<open>step_skip * time_step\<close> divides 1000: \<open>int\<close> truncates, so \<open>min_dt\<close> is the
  largest interval that spans at most 1000 time units.
\<close>

theorem smoothed_timesteps_real_time:
  assumes "0 < step_skip p * time_step p"
    and "smoothed_timesteps p nsteps min_obs = Inr ts"
    and "\<Delta> \<in> set ts"
  shows "1000 < (\<Delta> + 1) * time_step p * step_skip p
       \<and> (step_skip p * time_step p dvd 1000 \<longrightarrow> 1000 \<le> \<Delta> * time_step p * step_skip p)"
proof -
  define k where "k = step_skip p * time_step p"
  define m where "m = py_int (1000 / real_of_int k)"
  have k: "0 < k" using assms(1) unfolding k_def .
  have m: "m = 1000 div k" unfolding m_def using k by (rule py_int_1000)
  have "\<exists>M s. 0 < s \<and> ts = arange m M s"
    using smoothed_timesteps_Inr(4)[OF assms(2)] unfolding m_def k_def
    by (metis max.strict_coboundedI2 zero_less_one)
  then obtain M s where s: "0 < s" and ts: "ts = arange m M s" by blast
  have le: "m \<le> \<Delta>" using arange_bounds[OF s] assms(3) unfolding ts by blast
  have "1000 = k * (1000 div k) + 1000 mod k" by simp
  moreover have "1000 mod k < k" using k by simp
  ultimately have "1000 < k * m + k" unfolding m by linarith
  moreover have "k * m \<le> k * \<Delta>" using le k by (simp add: mult_left_mono)
  ultimately have a: "1000 < (\<Delta> + 1) * k" by (simp add: algebra_simps)
  have b: "1000 \<le> \<Delta> * k" if "k dvd 1000"
  proof -
    have "k * m = 1000" unfolding m using that by simp
    with \<open>k * m \<le> k * \<Delta>\<close> show ?thesis by (simp add: mult.commute)
  qed
  have e1: "(\<Delta> + 1) * time_step p * step_skip p = (\<Delta> + 1) * k"
    and e2: "\<Delta> * time_step p * step_skip p = \<Delta> * k"
    unfolding k_def by (simp_all add: mult.assoc mult.commute)
  show ?thesis unfolding e1 e2 using a b unfolding k_def by blast
qed

theorem smoothed_timesteps_real_time_witness:
  "smoothed_timesteps \<lparr>time_step = 1, step_skip = 1, indices = [0]\<rparr> 2000 1
     = Inr (arange 1000 2000 5)
   \<and> 1000 \<in> set (arange 1000 2000 5)
   \<and> (1::int) dvd 1000
   \<and> (1000::int) < (1000 + 1) * 1 * 1 \<and> (1000::int) \<le> 1000 * 1 * 1"
proof -
  have r: "smoothed_timesteps \<lparr>time_step = 1, step_skip = 1, indices = [0]\<rparr> 2000 1
     = Inr (arange 1000 2000 5)"
    by (simp add: smoothed_timesteps_def py_int_def)
  have mem: "1000 \<in> set (arange 1000 2000 5)" by (rule arange_first) simp_all
  from smoothed_timesteps_real_time[OF _ r mem] mem r show ?thesis by simp
qed

text \<open>
  With \<open>time_step = 3\<close> and \<open>step_skip = 1\<close> the first interval is
  \<open>int(1000 / 3) = 333\<close>, which spans 999 time units.
\<close>

theorem smoothed_timesteps_short_interval_counterexample:
  "smoothed_timesteps \<lparr>time_step = 3, step_skip = 1, indices = [0]\<rparr> 1000 1
     = Inr (arange 333 1000 3)
   \<and> 333 \<in> set (arange 333 1000 3)
   \<and> \<not> (333::int) * 3 * 1 \<ge> 1000"
proof -
  have "smoothed_timesteps \<lparr>time_step = 3, step_skip = 1, indices = [0]\<rparr> 1000 1
     = Inr (arange 333 1000 3)"
    by (simp add: smoothed_timesteps_def py_int_def)
  moreover have "333 \<in> set (arange 333 1000 3)" by (rule arange_first) simp_all
  ultimately show ?thesis by simp
qed





section \<open>Properties of the drift correction\<close>






lemma set_filter_enumerate:
  "set (map fst (filter (\<lambda>(i, x). P x) (enumerate 0 xs))) = {i. i < length xs \<and> P (xs ! i)}"
proof (intro set_eqI iffI)
  fix i assume "i \<in> set (map fst (filter (\<lambda>(i, x). P x) (enumerate 0 xs)))"
  then obtain x where "(i, x) \<in> set (enumerate 0 xs)" and "P x" by auto
  then show "i \<in> {i. i < length xs \<and> P (xs ! i)}" by (simp add: in_set_enumerate_eq)
next
  fix i assume "i \<in> {i. i < length xs \<and> P (xs ! i)}"
  then have "(i, xs ! i) \<in> set (enumerate 0 xs)" and "P (xs ! i)"
    by (simp_all add: in_set_enumerate_eq)
  then have "(i, xs ! i) \<in> set (filter (\<lambda>(i, x). P x) (enumerate 0 xs))" by simp
  then have "fst (i, xs ! i) \<in> fst ` set (filter (\<lambda>(i, x). P x) (enumerate 0 xs))"
    by (rule imageI)
  then show "i \<in> set (map fst (filter (\<lambda>(i, x). P x) (enumerate 0 xs)))" by simp
qed


lemma set_mobile_indices:
  "set (mobile_indices structure specie)
     = {i. i < length (sites structure) \<and> symbol (sites structure ! i) = specie}"
  unfolding mobile_indices_def by (rule set_filter_enumerate)






section \<open>Properties of \<open>_get_structure_and_disp\<close>\<close>

subsection \<open>Wrapping of the fractional deltas\<close>

lemma round_half_even_bounds:
  "- (1 / 2) \<le> x - of_int (round_half_even x) \<and> x - of_int (round_half_even x) \<le> 1 / 2"
proof -
  define f where "f = \<lfloor>x\<rfloor>"
  define r where "r = x - of_int f"
  have r: "0 \<le> r" "r < 1" unfolding r_def f_def by linarith+
  have x: "x = of_int f + r" unfolding r_def by simp
  have e: "round_half_even x
         = (if r < 1 / 2 then f else if 1 / 2 < r then f + 1 else if even f then f else f + 1)"
    unfolding round_half_even_def Let_def f_def[symmetric] r_def[symmetric] ..
  consider "r < 1 / 2" | "1 / 2 < r" | "r = 1 / 2" by linarith
  then show ?thesis
  proof cases
    case 1
    then have "round_half_even x = f" using e by simp
    then show ?thesis using x r 1 by simp
  next
    case 2
    then have "round_half_even x = f + 1" using e by simp
    then show ?thesis using x r 2 by simp
  next
    case 3
    then have "round_half_even x = f \<or> round_half_even x = f + 1" using e by simp
    then show ?thesis using x 3 by auto
  qed
qed

text \<open>
  C7 (amended). For every pair of consecutive frames, every site and every axis whose two
  fractional coordinates are numbers, the wrapped delta \<open>d - round(d)\<close> of line 179 is a
  number in the closed interval from \<open>-0.5\<close> to \<open>0.5\<close>.
\<close>

theorem d_coords_wrapped_closed_interval:
  assumes "coords_of structures i (Suc k) a = Val x"
    and "coords_of structures i k a = Val y"
  shows "\<exists>w. d_coords_of structures i k a = Val w \<and> - (1 / 2) \<le> w \<and> w \<le> 1 / 2"
proof -
  have "d_coords_of structures i k a = Val ((x - y) - of_int (round_half_even (x - y)))"
    unfolding d_coords_of_def Let_def assms by simp
  then show ?thesis using round_half_even_bounds[of "x - y"] by blast
qed

lemma round_half_even_half: "round_half_even (1 / 2) = 0"
proof -
  have "\<lfloor>1 / 2 :: real\<rfloor> = 0" by simp
  then show ?thesis unfolding round_half_even_def Let_def by simp
qed


theorem d_coords_wrapped_closed_interval_witness:
  "coords_of [\<lparr>sites = [\<lparr>symbol = ''Li'', frac_coords = Vec3 (Val (9 / 10)) (Val 0) (Val 0)\<rparr>],
               lattice_matrix = Mat3 (Vec3 (Val 1) (Val 0) (Val 0)) (Vec3 (Val 0) (Val 1) (Val 0))
                                     (Vec3 (Val 0) (Val 0) (Val 1))\<rparr>,
              \<lparr>sites = [\<lparr>symbol = ''Li'', frac_coords = Vec3 (Val (1 / 10)) (Val 0) (Val 0)\<rparr>],
               lattice_matrix = Mat3 (Vec3 (Val 1) (Val 0) (Val 0)) (Vec3 (Val 0) (Val 1) (Val 0))
                                     (Vec3 (Val 0) (Val 0) (Val 1))\<rparr>] 0 2 0 = Val (1 / 10)
   \<and> (\<exists>w. d_coords_of
         [\<lparr>sites = [\<lparr>symbol = ''Li'', frac_coords = Vec3 (Val (9 / 10)) (Val 0) (Val 0)\<rparr>],
               lattice_matrix = Mat3 (Vec3 (Val 1) (Val 0) (Val 0)) (Vec3 (Val 0) (Val 1) (Val 0))
                                     (Vec3 (Val 0) (Val 0) (Val 1))\<rparr>,
              \<lparr>sites = [\<lparr>symbol = ''Li'', frac_coords = Vec3 (Val (1 / 10)) (Val 0) (Val 0)\<rparr>],
               lattice_matrix = Mat3 (Vec3 (Val 1) (Val 0) (Val 0)) (Vec3 (Val 0) (Val 1) (Val 0))
                                     (Vec3 (Val 0) (Val 0) (Val 1))\<rparr>] 0 1 0 = Val w
        \<and> - (1 / 2) \<le> w \<and> w \<le> 1 / 2)"
proof -
  define S where "S = [\<lparr>sites = [\<lparr>symbol = ''Li'', frac_coords = Vec3 (Val (9 / 10)) (Val 0) (Val 0)\<rparr>],
               lattice_matrix = Mat3 (Vec3 (Val 1) (Val 0) (Val 0)) (Vec3 (Val 0) (Val 1) (Val 0))
                                     (Vec3 (Val 0) (Val 0) (Val 1))\<rparr>,
              \<lparr>sites = [\<lparr>symbol = ''Li'', frac_coords = Vec3 (Val (1 / 10)) (Val 0) (Val 0)\<rparr>],
               lattice_matrix = Mat3 (Vec3 (Val 1) (Val 0) (Val 0)) (Vec3 (Val 0) (Val 1) (Val 0))
                                     (Vec3 (Val 0) (Val 0) (Val 1))\<rparr>]"
  have c2: "coords_of S 0 (Suc 1) 0 = Val (1 / 10)" unfolding S_def coords_of_def by simp
  have c1: "coords_of S 0 1 0 = Val (9 / 10)" unfolding S_def coords_of_def by simp
  from d_coords_wrapped_closed_interval[OF c2 c1] c2
  show ?thesis unfolding S_def by (simp add: numeral_2_eq_2)
qed

text \<open>
  A coordinate that moves from \<open>0.25\<close> to \<open>0.75\<close> has the delta \<open>0.5\<close>, which
  \<open>np.round\<close> sends to the even neighbour \<open>0\<close>: the wrapped delta is \<open>0.5\<close> itself.
\<close>

theorem d_coords_half_counterexample:
  "d_coords_of [\<lparr>sites = [\<lparr>symbol = ''Li'', frac_coords = Vec3 (Val (1 / 4)) (Val 0) (Val 0)\<rparr>],
               lattice_matrix = Mat3 (Vec3 (Val 1) (Val 0) (Val 0)) (Vec3 (Val 0) (Val 1) (Val 0))
                                     (Vec3 (Val 0) (Val 0) (Val 1))\<rparr>,
              \<lparr>sites = [\<lparr>symbol = ''Li'', frac_coords = Vec3 (Val (3 / 4)) (Val 0) (Val 0)\<rparr>],
               lattice_matrix = Mat3 (Vec3 (Val 1) (Val 0) (Val 0)) (Vec3 (Val 0) (Val 1) (Val 0))
                                     (Vec3 (Val 0) (Val 0) (Val 1))\<rparr>] 0 1 0 = Val (1 / 2)
   \<and> \<not> (1 / 2 :: real) < 1 / 2"
  unfolding d_coords_of_def coords_of_def Let_def
  by (simp add: round_half_even_half)

subsection \<open>The lattice matrix of the Cartesian transform\<close>








section \<open>Properties of the mean-squared displacement\<close>











section \<open>Properties of the constructor\<close>






end
